theory Spec2Isabelle
  imports Main "HOL-Library.AList" "HOL-Library.Sublist"
begin

section \<open>Python text\<close>

text \<open>
  A Python \<open>str\<close> is modelled by an Isabelle \<open>string\<close>.  Command text is ASCII: a
  character below 128 is the code point itself.  The fixed Czech messages of the bank
  contain letters beyond ASCII; they are written as their UTF-8 bytes, the form in which
  \<open>handle_client\<close> puts them on the wire.  A character from 128 on is carried along
  unchanged and is neither white space, nor a digit, nor a letter with a case.
\<close>

definition is_digit :: "char \<Rightarrow> bool" where
  "is_digit c = (48 \<le> (of_char c :: nat) \<and> (of_char c :: nat) \<le> 57)"

definition digit_val :: "char \<Rightarrow> nat" where
  "digit_val c = of_char c - 48"

definition digit_char :: "nat \<Rightarrow> char" where
  "digit_char d = ''0123456789'' ! d"

text \<open>White space of \<open>str.strip\<close> and \<open>str.split\<close>: tab, LF, VT, FF, CR, the four
  separators FS, GS, RS, US and the blank.\<close>

definition isspace :: "char \<Rightarrow> bool" where
  "isspace c = ((9 \<le> (of_char c :: nat) \<and> (of_char c :: nat) \<le> 13)
              \<or> (28 \<le> (of_char c :: nat) \<and> (of_char c :: nat) \<le> 32))"

text \<open>White space that \<open>int()\<close> skips around an ASCII literal: tab to CR and the blank.\<close>

definition isspace_c :: "char \<Rightarrow> bool" where
  "isspace_c c = ((9 \<le> (of_char c :: nat) \<and> (of_char c :: nat) \<le> 13) \<or> (of_char c :: nat) = 32)"

definition strip_with :: "(char \<Rightarrow> bool) \<Rightarrow> string \<Rightarrow> string" where
  "strip_with p s = rev (dropWhile p (rev (dropWhile p s)))"

definition py_strip :: "string \<Rightarrow> string" where
  "py_strip s = strip_with isspace s"

text \<open>\<open>s.split()\<close>: the maximal runs of characters that are not white space.\<close>

fun split_ws :: "string \<Rightarrow> string \<Rightarrow> string list" where
  "split_ws cur [] = (if cur = [] then [] else [cur])"
| "split_ws cur (c # cs) =
     (if isspace c then (if cur = [] then split_ws [] cs else cur # split_ws [] cs)
      else split_ws (cur @ [c]) cs)"

definition py_split :: "string \<Rightarrow> string list" where
  "py_split s = split_ws [] s"

text \<open>\<open>s.split(sep)\<close> for a separator of one character: every occurrence cuts, so
  empty pieces are kept.\<close>

fun split_at :: "char \<Rightarrow> string \<Rightarrow> string \<Rightarrow> string list" where
  "split_at d cur [] = [cur]"
| "split_at d cur (c # cs) =
     (if c = d then cur # split_at d [] cs else split_at d (cur @ [c]) cs)"

definition py_split_sep :: "char \<Rightarrow> string \<Rightarrow> string list" where
  "py_split_sep d s = split_at d [] s"

text \<open>The letters with a case are the 26 ASCII letters.\<close>

definition upper_char :: "char \<Rightarrow> char" where
  "upper_char c =
     (case map_of (zip ''abcdefghijklmnopqrstuvwxyz'' ''ABCDEFGHIJKLMNOPQRSTUVWXYZ'') c of
        Some u \<Rightarrow> u | None \<Rightarrow> c)"

definition lower_char :: "char \<Rightarrow> char" where
  "lower_char c =
     (case map_of (zip ''ABCDEFGHIJKLMNOPQRSTUVWXYZ'' ''abcdefghijklmnopqrstuvwxyz'') c of
        Some l \<Rightarrow> l | None \<Rightarrow> c)"

definition py_upper :: "string \<Rightarrow> string" where
  "py_upper s = map upper_char s"

definition py_lower :: "string \<Rightarrow> string" where
  "py_lower s = map lower_char s"

subsection \<open>Integers as text\<close>

text \<open>\<open>str(n)\<close> for \<open>n \<ge> 0\<close>: the decimal digits, most significant first.\<close>

function str_nat :: "nat \<Rightarrow> string" where
  "str_nat n = (if n < 10 then [digit_char n] else str_nat (n div 10) @ [digit_char (n mod 10)])"
  by pat_completeness auto
termination
  by (relation "measure id") auto

declare str_nat.simps [simp del]

definition py_str_int :: "int \<Rightarrow> string" where
  "py_str_int i = (if i < 0 then CHR ''-'' # str_nat (nat (- i)) else str_nat (nat i))"

text \<open>The value of a string of digits.\<close>

definition nat_of_digits :: "string \<Rightarrow> nat" where
  "nat_of_digits s = foldl (\<lambda>a c. 10 * a + digit_val c) 0 s"

text \<open>The body of an integer literal: digits, with single underscores between digits.\<close>

fun digits_us :: "string \<Rightarrow> bool" where
  "digits_us [] = False"
| "digits_us [c] = is_digit c"
| "digits_us (c # d # r) =
     (is_digit c \<and> (if d = CHR ''_'' then digits_us r else digits_us (d # r)))"

datatype dec_signal = ConversionSyntax | InvalidOperation | Overflow

text \<open>The exceptions that a command can raise.  \<open>Exception m\<close> is the plain
  \<open>Exception\<close> with message \<open>m\<close>; the signals of the decimal module are
  \<open>ArithmeticError\<close>s and not \<open>ValueError\<close>s.\<close>

datatype pyexc = ValueError | DecimalException dec_signal | Exception string

definition int_sign :: "string \<Rightarrow> bool" where
  "int_sign t = (case t of [] \<Rightarrow> False | c # _ \<Rightarrow> c = CHR ''-'')"

definition int_body :: "string \<Rightarrow> string" where
  "int_body t = (case t of [] \<Rightarrow> [] | c # r \<Rightarrow> if c = CHR ''-'' \<or> c = CHR ''+'' then r else t)"

definition py_int :: "string \<Rightarrow> pyexc + int" where
  "py_int s =
     (let t = strip_with isspace_c s; body = int_body t
      in if digits_us body
         then (let v = int (nat_of_digits (filter (\<lambda>c. c \<noteq> CHR ''_'') body))
               in Inr (if int_sign t then - v else v))
         else Inl ValueError)"

section \<open>Money: the decimal numbers of the \<open>decimal\<close> module\<close>

text \<open>
  \<open>Account.balance\<close> and every amount is a \<open>decimal.Decimal\<close>.  A finite number is
  a sign, a coefficient and an exponent (value \<open>\<plusminus> coefficient * 10 ^ exponent\<close>); the
  coefficient is kept by Python as its digit string without leading zeros, here as the
  natural number it denotes.  The special values are the two infinities and the NaNs
  (sign, signalling or quiet, payload; payload 0 is the empty payload).

  The bank never changes the arithmetic context, so every operation runs under the
  module's default: 28 digits, round-half-even, exponents between -999999 and 999999,
  and the traps InvalidOperation, DivisionByZero and Overflow, which raise.  The
  constructor and \<open>str\<close> follow the module's reference implementation clause by clause;
  comparison and addition are the ones of the General Decimal Arithmetic specification
  that the module implements: the operands are aligned at the smaller exponent, the
  exact result is formed, and the context rounds it.
\<close>

datatype decimal = Finite bool nat int | Infinity bool | NaN bool bool nat

definition prec :: nat where "prec = 28"
definition Emax :: int where "Emax = 999999"
definition Emin :: int where "Emin = - 999999"
definition Etiny :: int where "Etiny = Emin - int prec + 1"
definition Etop :: int where "Etop = Emax - int prec + 1"

definition ndigits :: "nat \<Rightarrow> nat" where
  "ndigits n = length (str_nat n)"

subsection \<open>\<open>Decimal(text)\<close>\<close>

text \<open>The constructor strips white space, drops every underscore and matches the rest
  against: an optional sign, then either a number (digits with an optional point, at
  least one digit, and an optional exponent), or \<open>Inf\<close>/\<open>Infinity\<close>, or \<open>NaN\<close>/\<open>sNaN\<close>
  with optional payload digits; letters in either case.  The conversion is exact: the
  context's precision plays no role.\<close>

definition dec_clean :: "string \<Rightarrow> string" where
  "dec_clean s = filter (\<lambda>c. c \<noteq> CHR ''_'') (py_strip s)"

definition parse_exp :: "string \<Rightarrow> int option" where
  "parse_exp r =
     (if int_body r \<noteq> [] \<and> list_all is_digit (int_body r)
      then Some (if int_sign r then - int (nat_of_digits (int_body r))
                 else int (nat_of_digits (int_body r)))
      else None)"

definition exp_part :: "string \<Rightarrow> int option" where
  "exp_part r =
     (case r of [] \<Rightarrow> Some 0
      | c # r' \<Rightarrow> if c = CHR ''E'' \<or> c = CHR ''e'' then parse_exp r' else None)"

definition frac_part :: "string \<Rightarrow> string \<times> string" where
  "frac_part r =
     (case r of [] \<Rightarrow> ([], [])
      | c # r' \<Rightarrow> if c = CHR ''.'' then (takeWhile is_digit r', dropWhile is_digit r')
                 else ([], r))"

definition parse_number :: "bool \<Rightarrow> string \<Rightarrow> decimal option" where
  "parse_number sg u =
     (let ip = takeWhile is_digit u; fr = frac_part (dropWhile is_digit u)
      in if ip = [] \<and> fst fr = [] then None
         else map_option (\<lambda>e. Finite sg (nat_of_digits (ip @ fst fr)) (e - int (length (fst fr))))
                (exp_part (snd fr)))"

definition parse_inf :: "bool \<Rightarrow> string \<Rightarrow> decimal option" where
  "parse_inf sg u =
     (if py_lower u = ''inf'' \<or> py_lower u = ''infinity'' then Some (Infinity sg) else None)"

definition parse_nan :: "bool \<Rightarrow> string \<Rightarrow> decimal option" where
  "parse_nan sg u =
     (if py_lower (take 3 u) = ''nan'' \<and> list_all is_digit (drop 3 u)
      then Some (NaN sg False (nat_of_digits (drop 3 u)))
      else if py_lower (take 4 u) = ''snan'' \<and> list_all is_digit (drop 4 u)
      then Some (NaN sg True (nat_of_digits (drop 4 u)))
      else None)"

definition parse_body :: "bool \<Rightarrow> string \<Rightarrow> decimal option" where
  "parse_body sg u =
     (case parse_number sg u of Some d \<Rightarrow> Some d
      | None \<Rightarrow> (case parse_inf sg u of Some d \<Rightarrow> Some d | None \<Rightarrow> parse_nan sg u))"

definition Decimal :: "string \<Rightarrow> pyexc + decimal" where
  "Decimal s =
     (case parse_body (int_sign (dec_clean s)) (int_body (dec_clean s)) of
        Some d \<Rightarrow> Inr d
      | None \<Rightarrow> Inl (DecimalException ConversionSyntax))"

subsection \<open>\<open>str(d)\<close>\<close>

definition fmt_exp :: "int \<Rightarrow> string" where
  "fmt_exp i = (if i < 0 then CHR ''-'' # str_nat (nat (- i)) else CHR ''+'' # str_nat (nat i))"

definition sign_str :: "bool \<Rightarrow> string" where
  "sign_str sg = (if sg then ''-'' else [])"

definition leftdigits :: "nat \<Rightarrow> int \<Rightarrow> int" where
  "leftdigits n e = e + int (ndigits n)"

definition dotplace :: "nat \<Rightarrow> int \<Rightarrow> int" where
  "dotplace n e = (if e \<le> 0 \<and> leftdigits n e > - 6 then leftdigits n e else 1)"

definition mantissa :: "string \<Rightarrow> int \<Rightarrow> string" where
  "mantissa ds dp =
     (if dp \<le> 0 then ''0.'' @ replicate (nat (- dp)) CHR ''0'' @ ds
      else if dp \<ge> int (length ds) then ds @ replicate (nat (dp - int (length ds))) CHR ''0''
      else take (nat dp) ds @ ''.'' @ drop (nat dp) ds)"

definition exp_suffix :: "nat \<Rightarrow> int \<Rightarrow> string" where
  "exp_suffix n e =
     (if leftdigits n e = dotplace n e then []
      else CHR ''E'' # fmt_exp (leftdigits n e - dotplace n e))"

fun str_decimal :: "decimal \<Rightarrow> string" where
  "str_decimal (Finite sg n e) = sign_str sg @ mantissa (str_nat n) (dotplace n e) @ exp_suffix n e"
| "str_decimal (Infinity sg) = sign_str sg @ ''Infinity''"
| "str_decimal (NaN sg sig p) =
     sign_str sg @ (if sig then ''sNaN'' else ''NaN'') @ (if p = 0 then [] else str_nat p)"

subsection \<open>Rounding to the context\<close>

text \<open>\<open>round_half_even n k\<close> drops the last \<open>k\<close> digits of \<open>n\<close>: to the nearest, a
  tie to the even neighbour.\<close>

definition round_half_even :: "nat \<Rightarrow> nat \<Rightarrow> nat" where
  "round_half_even n k =
     (if n mod 10 ^ k > 5 * 10 ^ (k - 1) \<or> (n mod 10 ^ k = 5 * 10 ^ (k - 1) \<and> odd (n div 10 ^ k))
      then n div 10 ^ k + 1 else n div 10 ^ k)"

text \<open>The smallest exponent the context allows for a coefficient of this length at
  this exponent.\<close>

definition exp_min :: "nat \<Rightarrow> int \<Rightarrow> int" where
  "exp_min n e = max (int (ndigits n) + e - int prec) Etiny"

definition fix_round :: "bool \<Rightarrow> nat \<Rightarrow> int \<Rightarrow> pyexc + decimal" where
  "fix_round sg n e =
     (let c = round_half_even n (nat (exp_min n e - e))
      in if ndigits c > prec
         then (if exp_min n e + 1 > Etop then Inl (DecimalException Overflow)
               else Inr (Finite sg (c div 10) (exp_min n e + 1)))
         else Inr (Finite sg c (exp_min n e)))"

text \<open>\<open>_fix\<close>: a zero keeps its exponent within the range; a number whose adjusted
  exponent exceeds \<open>Emax\<close> overflows, which raises; a coefficient with too many digits
  (or an exponent below \<open>Etiny\<close>) is rounded; anything else is returned as it is.\<close>

definition fix_finite :: "bool \<Rightarrow> nat \<Rightarrow> int \<Rightarrow> pyexc + decimal" where
  "fix_finite sg n e =
     (if n = 0 then Inr (Finite sg 0 (min (max e Etiny) Emax))
      else if int (ndigits n) + e - int prec > Etop then Inl (DecimalException Overflow)
      else if e < exp_min n e then fix_round sg n e
      else Inr (Finite sg n e))"

definition fix_nan :: "decimal \<Rightarrow> decimal" where
  "fix_nan d =
     (case d of NaN sg sig p \<Rightarrow> if p \<noteq> 0 \<and> ndigits p > prec then NaN sg sig (p mod 10 ^ prec) else d
      | _ \<Rightarrow> d)"

subsection \<open>Comparison and addition\<close>

definition is_nan :: "decimal \<Rightarrow> bool" where
  "is_nan d = (case d of NaN _ _ _ \<Rightarrow> True | _ \<Rightarrow> False)"

definition is_snan :: "decimal \<Rightarrow> bool" where
  "is_snan d = (case d of NaN _ sig _ \<Rightarrow> sig | _ \<Rightarrow> False)"

definition signed :: "bool \<Rightarrow> nat \<Rightarrow> int" where
  "signed sg n = (if sg then - int n else int n)"

text \<open>The coefficient of \<open>n * 10 ^ e\<close> written at the exponent \<open>m \<le> e\<close>.\<close>

definition align :: "nat \<Rightarrow> int \<Rightarrow> int \<Rightarrow> nat" where
  "align n e m = n * 10 ^ nat (e - m)"

definition isinfinity :: "decimal \<Rightarrow> int" where
  "isinfinity d = (case d of Infinity sg \<Rightarrow> if sg then - 1 else 1 | _ \<Rightarrow> 0)"

text \<open>\<open>_cmp\<close>, for operands that are not NaN: less, equal or greater as -1, 0, 1.\<close>

fun dec_cmp :: "decimal \<Rightarrow> decimal \<Rightarrow> int" where
  "dec_cmp (Finite s1 n1 e1) (Finite s2 n2 e2) =
     sgn (signed s1 (align n1 e1 (min e1 e2)) - signed s2 (align n2 e2 (min e1 e2)))"
| "dec_cmp a b = sgn (isinfinity a - isinfinity b)"

text \<open>\<open><\<close> and \<open><=\<close> signal InvalidOperation on any NaN, and the signal is trapped.\<close>

definition dec_lt :: "decimal \<Rightarrow> decimal \<Rightarrow> pyexc + bool" where
  "dec_lt a b = (if is_nan a \<or> is_nan b then Inl (DecimalException InvalidOperation)
                 else Inr (dec_cmp a b < 0))"

definition dec_le :: "decimal \<Rightarrow> decimal \<Rightarrow> pyexc + bool" where
  "dec_le a b = (if is_nan a \<or> is_nan b then Inl (DecimalException InvalidOperation)
                 else Inr (dec_cmp a b \<le> 0))"

text \<open>\<open>_check_nans\<close> when one operand is a NaN: a signalling NaN raises, a quiet one
  is the result, the left operand first.\<close>

definition nan_result :: "decimal \<Rightarrow> decimal \<Rightarrow> pyexc + decimal" where
  "nan_result a b =
     (if is_snan a \<or> is_snan b then Inl (DecimalException InvalidOperation)
      else if is_nan a then Inr (fix_nan a) else Inr (fix_nan b))"

fun add_values :: "decimal \<Rightarrow> decimal \<Rightarrow> pyexc + decimal" where
  "add_values (Finite s1 n1 e1) (Finite s2 n2 e2) =
     fix_finite
       (if n1 = 0 \<and> n2 = 0 then s1 \<and> s2
        else signed s1 (align n1 e1 (min e1 e2)) + signed s2 (align n2 e2 (min e1 e2)) < 0)
       (nat \<bar>signed s1 (align n1 e1 (min e1 e2)) + signed s2 (align n2 e2 (min e1 e2))\<bar>)
       (min e1 e2)"
| "add_values (Infinity s1) (Infinity s2) =
     (if s1 \<noteq> s2 then Inl (DecimalException InvalidOperation) else Inr (Infinity s1))"
| "add_values (Infinity s1) b = Inr (Infinity s1)"
| "add_values a b = Inr b"

definition dec_add :: "decimal \<Rightarrow> decimal \<Rightarrow> pyexc + decimal" where
  "dec_add a b = (if is_nan a \<or> is_nan b then nan_result a b else add_values a b)"

fun copy_negate :: "decimal \<Rightarrow> decimal" where
  "copy_negate (Finite sg n e) = Finite (\<not> sg) n e"
| "copy_negate (Infinity sg) = Infinity (\<not> sg)"
| "copy_negate (NaN sg sig p) = NaN (\<not> sg) sig p"

definition dec_sub :: "decimal \<Rightarrow> decimal \<Rightarrow> pyexc + decimal" where
  "dec_sub a b = (if is_nan a \<or> is_nan b then nan_result a b else dec_add a (copy_negate b))"

definition dec_zero :: decimal where
  "dec_zero = Finite False 0 0"

section \<open>Accounts and the persisted record\<close>

record account =
  number :: int
  balance :: decimal

text \<open>What \<open>json.load\<close> returns: \<open>JObject\<close> holds the pairs of the Python dict, so
  its keys are distinct.  A JSON real is not represented.\<close>

datatype json = JNull | JBool bool | JInt int | JStr string | JList "json list"
  | JObject "(string \<times> json) list"

text \<open>The outcome of a step of loading: a value, an exception, or \<open>Unmodelled\<close> where
  Python goes on with a value that the declared types of the bank (\<open>Dict[int, Account]\<close>,
  an integer counter) exclude, or with a conversion that is not represented here.
  Nothing is stated about a file with that outcome.\<close>

datatype load_error = KeyError string | TypeError | DecimalError dec_signal | ReadError

datatype 'a result = Ok 'a | Raise load_error | Unmodelled

definition Account :: "int \<Rightarrow> account" where
  "Account n = \<lparr>number = n, balance = dec_zero\<rparr>"

definition to_dict :: "account \<Rightarrow> json" where
  "to_dict acc = JObject [(''number'', JInt (number acc)), (''balance'', JStr (str_decimal (balance acc)))]"

text \<open>\<open>data[key]\<close> for a string key.\<close>

definition subscript :: "json \<Rightarrow> string \<Rightarrow> json result" where
  "subscript data k =
     (case data of
        JObject kvs \<Rightarrow> (case map_of kvs k of None \<Rightarrow> Raise (KeyError k) | Some v \<Rightarrow> Ok v)
      | _ \<Rightarrow> Raise TypeError)"

text \<open>\<open>Decimal(v)\<close> for a loaded value: text is parsed, an integer (and a boolean, which
  is an integer) converts exactly, \<open>None\<close> and a dict are type errors.\<close>

definition Decimal_json :: "json \<Rightarrow> decimal result" where
  "Decimal_json v =
     (case v of
        JStr s \<Rightarrow> (case Decimal s of Inr d \<Rightarrow> Ok d | Inl _ \<Rightarrow> Raise (DecimalError ConversionSyntax))
      | JInt i \<Rightarrow> Ok (Finite (i < 0) (nat \<bar>i\<bar>) 0)
      | JBool b \<Rightarrow> Ok (Finite False (if b then 1 else 0) 0)
      | JList _ \<Rightarrow> Unmodelled
      | _ \<Rightarrow> Raise TypeError)"

text \<open>The number becomes the key of the dict in \<open>_load_state\<close>: a list or a dict is
  unhashable, which is the type error of that store; text, a boolean or \<open>None\<close> would
  be stored, outside the declared type.\<close>

definition number_json :: "json \<Rightarrow> int result" where
  "number_json v =
     (case v of JInt i \<Rightarrow> Ok i | JList _ \<Rightarrow> Raise TypeError | JObject _ \<Rightarrow> Raise TypeError
      | _ \<Rightarrow> Unmodelled)"

definition from_dict_fields :: "json \<Rightarrow> json \<Rightarrow> account result" where
  "from_dict_fields nv bv =
     (case Decimal_json bv of Raise e \<Rightarrow> Raise e
      | Unmodelled \<Rightarrow> Unmodelled
      | Ok d \<Rightarrow> (case number_json nv of Ok n \<Rightarrow> Ok \<lparr>number = n, balance = d\<rparr>
                 | Raise e \<Rightarrow> Raise e | Unmodelled \<Rightarrow> Unmodelled))"

definition from_dict :: "json \<Rightarrow> account result" where
  "from_dict data =
     (case subscript data ''number'' of Raise e \<Rightarrow> Raise e
      | Unmodelled \<Rightarrow> Unmodelled
      | Ok nv \<Rightarrow> (case subscript data ''balance'' of Raise e \<Rightarrow> Raise e
                  | Unmodelled \<Rightarrow> Unmodelled
                  | Ok bv \<Rightarrow> from_dict_fields nv bv))"

section \<open>The bank\<close>

text \<open>
  The fields of \<open>Bank\<close> that the ledger and the protocol use.  \<open>accounts\<close> is the
  Python dict in its insertion order; \<open>disk\<close> is the content of the file that
  \<open>data_file\<close> names.  The commands of one bank run one at a time (each works under
  \<open>self.lock\<close>), so a run of the bank is a sequence of calls.  Writing the file is
  taken to succeed.
\<close>

datatype file_content = Absent | Unreadable | Content json

record bank =
  accounts :: "(int \<times> account) list"
  next_account_number :: int
  ip_address :: string
  disk :: file_content

datatype load_status = NoFile | Loaded | Failed load_error | OutsideModel

text \<open>The loop of \<open>_load_state\<close>: each record is stored as soon as it is built; an
  exception leaves the loop with what is stored so far.\<close>

fun load_accounts :: "json list \<Rightarrow> (int \<times> account) list \<Rightarrow> load_status \<times> (int \<times> account) list" where
  "load_accounts [] accs = (Loaded, accs)"
| "load_accounts (j # js) accs =
     (case from_dict j of
        Ok acc \<Rightarrow> load_accounts js (AList.update (number acc) acc accs)
      | Raise e \<Rightarrow> (Failed e, accs)
      | Unmodelled \<Rightarrow> (OutsideModel, accs))"

text \<open>What \<open>for acc_data in v\<close> ranges over.\<close>

definition iterate :: "json \<Rightarrow> json list result" where
  "iterate v =
     (case v of JList js \<Rightarrow> Ok js
      | JStr s \<Rightarrow> Ok (map (\<lambda>c. JStr [c]) s)
      | JObject kvs \<Rightarrow> Ok (map (\<lambda>kv. JStr (fst kv)) kvs)
      | _ \<Rightarrow> Raise TypeError)"

definition load_records :: "bank \<Rightarrow> json \<Rightarrow> load_status \<times> bank" where
  "load_records b v =
     (case iterate v of
        Ok js \<Rightarrow> apsnd (\<lambda>accs. b\<lparr>accounts := accs\<rparr>) (load_accounts js (accounts b))
      | Raise e \<Rightarrow> (Failed e, b)
      | Unmodelled \<Rightarrow> (OutsideModel, b))"

definition load_data :: "bank \<Rightarrow> json \<Rightarrow> load_status \<times> bank" where
  "load_data b data =
     (case subscript data ''next_account_number'' of
        Raise e \<Rightarrow> (Failed e, b)
      | Unmodelled \<Rightarrow> (OutsideModel, b)
      | Ok nv \<Rightarrow>
          (case nv of
             JInt n \<Rightarrow>
               (case subscript data ''accounts'' of
                  Ok v \<Rightarrow> load_records (b\<lparr>next_account_number := n\<rparr>) v
                | Raise e \<Rightarrow> (Failed e, b\<lparr>next_account_number := n\<rparr>)
                | Unmodelled \<Rightarrow> (OutsideModel, b))
           | _ \<Rightarrow> (OutsideModel, b)))"

definition load_state :: "bank \<Rightarrow> load_status \<times> bank" where
  "load_state b =
     (case disk b of Absent \<Rightarrow> (NoFile, b)
      | Unreadable \<Rightarrow> (Failed ReadError, b)
      | Content data \<Rightarrow> load_data b data)"

definition state_json :: "bank \<Rightarrow> json" where
  "state_json b =
     JObject [(''next_account_number'', JInt (next_account_number b)),
              (''accounts'', JList (map (\<lambda>kv. to_dict (snd kv)) (accounts b)))]"

definition save_state :: "bank \<Rightarrow> bank" where
  "save_state b = b\<lparr>disk := Content (state_json b)\<rparr>"

text \<open>\<open>Bank.__init__\<close>: the address found by \<open>_get_local_ip\<close> and the file system are
  given; the ledger starts empty at 10001 and is then loaded.\<close>

definition fresh :: "string \<Rightarrow> file_content \<Rightarrow> bank" where
  "fresh ip d = \<lparr>accounts = [], next_account_number = 10001, ip_address = ip, disk = d\<rparr>"

definition Bank_init :: "string \<Rightarrow> file_content \<Rightarrow> bank" where
  "Bank_init ip d = snd (load_state (fresh ip d))"

section \<open>The ledger operations\<close>

abbreviation (input) a_acute :: string where "a_acute \<equiv> [CHR 0xC3, CHR 0xA1]"
abbreviation (input) c_caron :: string where "c_caron \<equiv> [CHR 0xC4, CHR 0x8D]"
abbreviation (input) e_acute :: string where "e_acute \<equiv> [CHR 0xC3, CHR 0xA9]"
abbreviation (input) i_acute :: string where "i_acute \<equiv> [CHR 0xC3, CHR 0xAD]"
abbreviation (input) z_caron :: string where "z_caron \<equiv> [CHR 0xC5, CHR 0xBE]"
abbreviation (input) u_ring :: string where "u_ring \<equiv> [CHR 0xC5, CHR 0xAF]"
abbreviation (input) y_acute :: string where "y_acute \<equiv> [CHR 0xC3, CHR 0xBD]"
abbreviation (input) r_caron :: string where "r_caron \<equiv> [CHR 0xC5, CHR 0x99]"
abbreviation (input) u_acute :: string where "u_acute \<equiv> [CHR 0xC3, CHR 0xBA]"
abbreviation (input) U_acute :: string where "U_acute \<equiv> [CHR 0xC3, CHR 0x9A]"
abbreviation (input) C_caron :: string where "C_caron \<equiv> [CHR 0xC4, CHR 0x8C]"

definition msg_format :: string where
  "msg_format = ''Neplatn'' @ y_acute @ '' form'' @ a_acute @ ''t '' @ u_acute @ c_caron @ ''tu (o''
     @ c_caron @ ''ek'' @ a_acute @ ''v'' @ a_acute @ ''no: '' @ c_caron @ i_acute @ ''slo/IP)''"

definition msg_not_local :: "string \<Rightarrow> string" where
  "msg_not_local ip = U_acute @ c_caron @ ''et nen'' @ i_acute @ '' v t'' @ e_acute @ ''to bance (o''
     @ c_caron @ ''ek'' @ a_acute @ ''v'' @ a_acute @ ''no: '' @ ip @ '')''"

definition msg_positive :: string where
  "msg_positive = C_caron @ a_acute @ ''stka mus'' @ i_acute @ '' b'' @ y_acute @ ''t kladn'' @ a_acute"

definition msg_no_account :: string where
  "msg_no_account = U_acute @ c_caron @ ''et neexistuje''"

definition msg_deposited :: "decimal \<Rightarrow> string \<Rightarrow> decimal \<Rightarrow> string" where
  "msg_deposited amount account_full bal =
     ''OK: Vlo'' @ z_caron @ ''eno '' @ str_decimal amount @ '' K'' @ c_caron @ '' na '' @ u_acute
     @ c_caron @ ''et '' @ account_full @ '', nov'' @ y_acute @ '' z'' @ u_ring @ ''statek: ''
     @ str_decimal bal @ '' K'' @ c_caron"

definition msg_withdrawn :: "decimal \<Rightarrow> string \<Rightarrow> decimal \<Rightarrow> string" where
  "msg_withdrawn amount account_full bal =
     ''OK: Vybr'' @ a_acute @ ''no '' @ str_decimal amount @ '' K'' @ c_caron @ '' z '' @ u_acute
     @ c_caron @ ''tu '' @ account_full @ '', nov'' @ y_acute @ '' z'' @ u_ring @ ''statek: ''
     @ str_decimal bal @ '' K'' @ c_caron"

definition msg_insufficient :: "decimal \<Rightarrow> string" where
  "msg_insufficient bal =
     ''Nedostate'' @ c_caron @ ''n'' @ y_acute @ '' z'' @ u_ring @ ''statek (dostupn'' @ e_acute
     @ '': '' @ str_decimal bal @ '' K'' @ c_caron @ '')''"

definition msg_number_or_amount :: string where
  "msg_number_or_amount = ''Neplatn'' @ y_acute @ '' form'' @ a_acute @ ''t '' @ c_caron @ i_acute
     @ ''sla nebo '' @ c_caron @ a_acute @ ''stky''"

definition msg_number :: string where
  "msg_number = ''Neplatn'' @ y_acute @ '' form'' @ a_acute @ ''t '' @ c_caron @ i_acute @ ''sla ''
     @ u_acute @ c_caron @ ''tu''"

text \<open>\<open>str(e)\<close>.  A signal of the decimal module prints as the list of its class, as
  CPython's implementation of the module raises it.\<close>

fun signal_name :: "dec_signal \<Rightarrow> string" where
  "signal_name ConversionSyntax = ''ConversionSyntax''"
| "signal_name InvalidOperation = ''InvalidOperation''"
| "signal_name Overflow = ''Overflow''"

fun str_exc :: "pyexc \<Rightarrow> string" where
  "str_exc (Exception m) = m"
| "str_exc (DecimalException sg) = ''[<class '' @ [CHR 0x27] @ ''decimal.'' @ signal_name sg @ [CHR 0x27] @ ''>]''"
| "str_exc ValueError = []"

text \<open>The two handlers that close each operation: a \<open>ValueError\<close> becomes an
  \<open>Exception\<close> with the operation's own message, any other exception an \<open>Exception\<close>
  with the same text.\<close>

fun handlers :: "string \<Rightarrow> pyexc + 'a \<Rightarrow> pyexc + 'a" where
  "handlers m (Inr v) = Inr v"
| "handlers m (Inl ValueError) = Inl (Exception m)"
| "handlers m (Inl e) = Inl (Exception (str_exc e))"

definition bank_code :: "bank \<Rightarrow> string" where
  "bank_code b = ip_address b"

definition account_create :: "bank \<Rightarrow> string \<times> bank" where
  "account_create b =
     (py_str_int (next_account_number b) @ ''/'' @ ip_address b,
      save_state (b\<lparr>next_account_number := next_account_number b + 1,
                      accounts := AList.update (next_account_number b)
                                    (Account (next_account_number b)) (accounts b)\<rparr>))"

text \<open>The first lines of the three operations on an account: the separator must occur,
  the split must give two pieces (unpacking any other number is a \<open>ValueError\<close>), and
  the first piece must be an integer.\<close>

definition unpack2 :: "string list \<Rightarrow> pyexc + (string \<times> string)" where
  "unpack2 ps = (case ps of [a, b] \<Rightarrow> Inr (a, b) | _ \<Rightarrow> Inl ValueError)"

definition parse_account :: "string \<Rightarrow> pyexc + (int \<times> string)" where
  "parse_account account_full =
     (if CHR ''/'' \<notin> set account_full then Inl (Exception msg_format)
      else (case unpack2 (py_split_sep CHR ''/'' account_full) of
              Inl e \<Rightarrow> Inl e
            | Inr p \<Rightarrow> (case py_int (fst p) of Inl e \<Rightarrow> Inl e | Inr n \<Rightarrow> Inr (n, snd p))))"

text \<open>\<open>account_deposit\<close>, from the inside: the block under the lock, the two checks
  before it, the parsing before those, and the handlers around all of it.  Every
  function returns the bank as the call leaves it.\<close>

definition deposit_locked :: "bank \<Rightarrow> string \<Rightarrow> int \<Rightarrow> decimal \<Rightarrow> (pyexc + string) \<times> bank" where
  "deposit_locked b account_full n amount =
     (case map_of (accounts b) n of
        None \<Rightarrow> (Inl (Exception msg_no_account), b)
      | Some acc \<Rightarrow>
          (case dec_add (balance acc) amount of
             Inl e \<Rightarrow> (Inl e, b)
           | Inr bal \<Rightarrow>
               (Inr (msg_deposited amount account_full bal),
                save_state (b\<lparr>accounts := AList.update n (acc\<lparr>balance := bal\<rparr>) (accounts b)\<rparr>))))"

definition deposit_checked :: "bank \<Rightarrow> string \<Rightarrow> int \<Rightarrow> string \<Rightarrow> decimal \<Rightarrow> (pyexc + string) \<times> bank" where
  "deposit_checked b account_full n ip amount =
     (if ip \<noteq> ip_address b then (Inl (Exception (msg_not_local (ip_address b))), b)
      else (case dec_le amount dec_zero of
              Inl e \<Rightarrow> (Inl e, b)
            | Inr le \<Rightarrow> if le then (Inl (Exception msg_positive), b)
                        else deposit_locked b account_full n amount))"

definition deposit_try :: "bank \<Rightarrow> string \<Rightarrow> string \<Rightarrow> (pyexc + string) \<times> bank" where
  "deposit_try b account_full amount_str =
     (case parse_account account_full of
        Inl e \<Rightarrow> (Inl e, b)
      | Inr p \<Rightarrow> (case Decimal amount_str of
                   Inl e \<Rightarrow> (Inl e, b)
                 | Inr amount \<Rightarrow> deposit_checked b account_full (fst p) (snd p) amount))"

definition account_deposit :: "bank \<Rightarrow> string \<Rightarrow> string \<Rightarrow> (pyexc + string) \<times> bank" where
  "account_deposit b account_full amount_str =
     apfst (handlers msg_number_or_amount) (deposit_try b account_full amount_str)"

definition withdrawal_locked :: "bank \<Rightarrow> string \<Rightarrow> int \<Rightarrow> decimal \<Rightarrow> (pyexc + string) \<times> bank" where
  "withdrawal_locked b account_full n amount =
     (case map_of (accounts b) n of
        None \<Rightarrow> (Inl (Exception msg_no_account), b)
      | Some acc \<Rightarrow>
          (case dec_lt (balance acc) amount of
             Inl e \<Rightarrow> (Inl e, b)
           | Inr lt \<Rightarrow>
               if lt then (Inl (Exception (msg_insufficient (balance acc))), b)
               else (case dec_sub (balance acc) amount of
                       Inl e \<Rightarrow> (Inl e, b)
                     | Inr bal \<Rightarrow>
                         (Inr (msg_withdrawn amount account_full bal),
                          save_state (b\<lparr>accounts := AList.update n (acc\<lparr>balance := bal\<rparr>) (accounts b)\<rparr>)))))"

definition withdrawal_checked :: "bank \<Rightarrow> string \<Rightarrow> int \<Rightarrow> string \<Rightarrow> decimal \<Rightarrow> (pyexc + string) \<times> bank" where
  "withdrawal_checked b account_full n ip amount =
     (if ip \<noteq> ip_address b then (Inl (Exception (msg_not_local (ip_address b))), b)
      else (case dec_le amount dec_zero of
              Inl e \<Rightarrow> (Inl e, b)
            | Inr le \<Rightarrow> if le then (Inl (Exception msg_positive), b)
                        else withdrawal_locked b account_full n amount))"

definition withdrawal_try :: "bank \<Rightarrow> string \<Rightarrow> string \<Rightarrow> (pyexc + string) \<times> bank" where
  "withdrawal_try b account_full amount_str =
     (case parse_account account_full of
        Inl e \<Rightarrow> (Inl e, b)
      | Inr p \<Rightarrow> (case Decimal amount_str of
                   Inl e \<Rightarrow> (Inl e, b)
                 | Inr amount \<Rightarrow> withdrawal_checked b account_full (fst p) (snd p) amount))"

definition account_withdrawal :: "bank \<Rightarrow> string \<Rightarrow> string \<Rightarrow> (pyexc + string) \<times> bank" where
  "account_withdrawal b account_full amount_str =
     apfst (handlers msg_number_or_amount) (withdrawal_try b account_full amount_str)"

definition balance_try :: "bank \<Rightarrow> string \<Rightarrow> pyexc + string" where
  "balance_try b account_full =
     (case parse_account account_full of
        Inl e \<Rightarrow> Inl e
      | Inr p \<Rightarrow>
          if snd p \<noteq> ip_address b then Inl (Exception (msg_not_local (ip_address b)))
          else (case map_of (accounts b) (fst p) of
                  None \<Rightarrow> Inl (Exception msg_no_account)
                | Some acc \<Rightarrow> Inr (str_decimal (balance acc))))"

definition account_balance :: "bank \<Rightarrow> string \<Rightarrow> pyexc + string" where
  "account_balance b account_full = handlers msg_number (balance_try b account_full)"

section \<open>The command processor and the connection handler\<close>

definition msg_empty :: string where
  "msg_empty = ''ERROR: Pr'' @ a_acute @ ''zdn'' @ y_acute @ '' p'' @ r_caron @ i_acute @ ''kaz''"

definition msg_usage_AD :: string where
  "msg_usage_AD = ''Pou'' @ z_caron @ ''it'' @ i_acute @ '': AD '' @ c_caron @ i_acute @ ''slo/IP ''
     @ c_caron @ a_acute @ ''stka''"

definition msg_usage_AW :: string where
  "msg_usage_AW = ''Pou'' @ z_caron @ ''it'' @ i_acute @ '': AW '' @ c_caron @ i_acute @ ''slo/IP ''
     @ c_caron @ a_acute @ ''stka''"

definition msg_usage_AB :: string where
  "msg_usage_AB = ''Pou'' @ z_caron @ ''it'' @ i_acute @ '': AB '' @ c_caron @ i_acute @ ''slo/IP''"

definition msg_unknown :: "string \<Rightarrow> string" where
  "msg_unknown cmd = ''Nezn'' @ a_acute @ ''m'' @ y_acute @ '' p'' @ r_caron @ i_acute @ ''kaz ''
     @ [CHR 0x27] @ cmd @ [CHR 0x27]"

text \<open>The body of the \<open>try\<close> in \<open>execute_command\<close>: \<open>parts\<close> is not empty and \<open>cmd\<close>
  is its first word in upper case.\<close>

definition dispatch :: "bank \<Rightarrow> string \<Rightarrow> string list \<Rightarrow> (pyexc + string) \<times> bank" where
  "dispatch b cmd parts =
     (if cmd = ''BC'' then (Inr (bank_code b), b)
      else if cmd = ''AC'' then apfst Inr (account_create b)
      else if cmd = ''AD'' then
        (if length parts \<noteq> 3 then (Inl (Exception msg_usage_AD), b)
         else account_deposit b (parts ! 1) (parts ! 2))
      else if cmd = ''AW'' then
        (if length parts \<noteq> 3 then (Inl (Exception msg_usage_AW), b)
         else account_withdrawal b (parts ! 1) (parts ! 2))
      else if cmd = ''AB'' then
        (if length parts \<noteq> 2 then (Inl (Exception msg_usage_AB), b)
         else (account_balance b (parts ! 1), b))
      else (Inl (Exception (msg_unknown cmd)), b))"

definition respond :: "pyexc + string \<Rightarrow> string" where
  "respond r = (case r of Inr s \<Rightarrow> s | Inl e \<Rightarrow> ''ERROR: '' @ str_exc e)"

definition execute_command :: "bank \<Rightarrow> string \<Rightarrow> string \<times> bank" where
  "execute_command b command =
     (case py_split (py_strip command) of
        [] \<Rightarrow> (msg_empty, b)
      | p # ps \<Rightarrow> apfst respond (dispatch b (py_upper p) (p # ps)))"

definition welcome_banner :: "bank \<Rightarrow> string" where
  "welcome_banner b = ''P2P Banka '' @ ip_address b @ [CHR 0x0A] @ ''P'' @ r_caron @ ''ipojeno. Podporovan''
     @ e_acute @ '' p'' @ r_caron @ i_acute @ ''kazy: BC, AC, AD, AW, AB'' @ [CHR 0x0A]"

text \<open>The loop of \<open>handle_client\<close> over what the successive \<open>recv(1024)\<close> calls return,
  decoded; after the last element the peer has closed and \<open>recv\<close> returns nothing.  The
  server is running.  The result is what was sent, one element per \<open>send\<close>.\<close>

fun serve :: "bank \<Rightarrow> string list \<Rightarrow> string list \<times> bank" where
  "serve b [] = ([], b)"
| "serve b (chunk # chunks) =
     (if py_strip chunk = [] then ([], b)
      else (case execute_command b (py_strip chunk) of
              (response, b') \<Rightarrow> apfst ((#) (response @ [CHR 0x0A])) (serve b' chunks)))"

definition handle_client :: "bank \<Rightarrow> string list \<Rightarrow> string list \<times> bank" where
  "handle_client b chunks = apfst ((#) (welcome_banner b)) (serve b chunks)"

section \<open>Runs of the bank\<close>

text \<open>The five operations of the ledger as calls with their arguments, the bank after
  a call, and the bank after a sequence of calls.\<close>

datatype operation = BankCode | CreateAccount | Deposit string string | Withdraw string string
  | Balance string

fun after :: "bank \<Rightarrow> operation \<Rightarrow> bank" where
  "after b BankCode = b"
| "after b CreateAccount = snd (account_create b)"
| "after b (Deposit account_full amount_str) = snd (account_deposit b account_full amount_str)"
| "after b (Withdraw account_full amount_str) = snd (account_withdrawal b account_full amount_str)"
| "after b (Balance account_full) = b"

definition after_all :: "bank \<Rightarrow> operation list \<Rightarrow> bank" where
  "after_all b ops = foldl after b ops"

text \<open>\<open>k\<close> calls of \<open>account_create\<close> in a row, with what they return.\<close>

fun create_accounts :: "nat \<Rightarrow> bank \<Rightarrow> string list \<times> bank" where
  "create_accounts 0 b = ([], b)"
| "create_accounts (Suc k) b =
     (case account_create b of (r, b') \<Rightarrow> apfst ((#) r) (create_accounts k b'))"

text \<open>Command lines executed one after the other, with the responses.\<close>

fun session :: "bank \<Rightarrow> string list \<Rightarrow> string list \<times> bank" where
  "session b [] = ([], b)"
| "session b (c # cs) =
     (case execute_command b c of (response, b') \<Rightarrow> apfst ((#) response) (session b' cs))"


text \<open>\<open>0 <= d\<close> holds (and does not raise).\<close>

definition nonneg :: "decimal \<Rightarrow> bool" where
  "nonneg d = (dec_le dec_zero d = Inr True)"

text \<open>A finite number that the context can hold: at most \<open>prec\<close> digits and an adjusted
  exponent of at most \<open>Emax\<close>.\<close>

definition in_context :: "decimal \<Rightarrow> bool" where
  "in_context d =
     (case d of Finite sg n e \<Rightarrow> ndigits n \<le> prec \<and> int (ndigits n) + e - int prec \<le> Etop
      | _ \<Rightarrow> False)"

text \<open>The shape of the dict that the bank's own code builds: every account is stored
  under its own number.  (The keys of a dict are distinct.)\<close>

definition ledger_wf :: "bank \<Rightarrow> bool" where
  "ledger_wf b =
     (distinct (map fst (accounts b)) \<and> list_all (\<lambda>kv. number (snd kv) = fst kv) (accounts b))"


text \<open>A state file whose second record has no balance.\<close>

definition broken_file :: json where
  "broken_file =
     JObject [(''next_account_number'', JInt 10003),
              (''accounts'', JList [JObject [(''number'', JInt 10001), (''balance'', JStr ''5'')],
                                    JObject [(''number'', JInt 10002)]])]"

section \<open>Evaluation rules\<close>

text \<open>The defining equations, collected for evaluating the model on concrete input.\<close>

lemmas text_defs = py_strip_def strip_with_def isspace_def isspace_c_def is_digit_def digit_val_def
  digit_char_def py_split_def py_split_sep_def py_upper_def py_lower_def upper_char_def lower_char_def
  py_str_int_def nat_of_digits_def int_sign_def int_body_def py_int_def str_nat.simps
lemmas parse_defs = dec_clean_def parse_exp_def exp_part_def frac_part_def parse_number_def
  parse_inf_def parse_nan_def parse_body_def Decimal_def

lemmas str_defs = fmt_exp_def sign_str_def leftdigits_def dotplace_def mantissa_def exp_suffix_def
  ndigits_def

lemmas arith_defs = ndigits_def round_half_even_def exp_min_def fix_round_def fix_finite_def
  fix_nan_def is_nan_def is_snan_def signed_def align_def isinfinity_def dec_lt_def dec_le_def
  nan_result_def dec_add_def dec_sub_def dec_zero_def prec_def Emax_def Emin_def Etiny_def Etop_def

lemmas dec_defs = parse_defs str_defs arith_defs

lemmas bank_defs = Account_def to_dict_def state_json_def save_state_def fresh_def Bank_init_def
  load_state_def bank_code_def account_create_def unpack2_def parse_account_def deposit_locked_def
  deposit_checked_def deposit_try_def account_deposit_def withdrawal_locked_def withdrawal_checked_def
  withdrawal_try_def account_withdrawal_def balance_try_def account_balance_def dispatch_def
  respond_def execute_command_def handle_client_def
lemmas msg_defs = msg_format_def msg_not_local_def msg_positive_def msg_no_account_def msg_deposited_def
  msg_withdrawn_def msg_insufficient_def msg_number_or_amount_def msg_number_def msg_empty_def
  msg_usage_AD_def msg_usage_AW_def msg_usage_AB_def msg_unknown_def welcome_banner_def

section \<open>Text: splitting and stripping\<close>

lemma split_ws_nospace: "\<forall>c\<in>set s. \<not> isspace c \<Longrightarrow> split_ws cur (s @ r) = split_ws (cur @ s) r"
  by (induction s arbitrary: cur) auto

lemma split_at_nosep: "d \<notin> set s \<Longrightarrow> split_at d cur (s @ r) = split_at d (cur @ s) r"
  by (induction s arbitrary: cur) auto

lemma split_at_nosep_end: "d \<notin> set s \<Longrightarrow> split_at d cur s = [cur @ s]"
  using split_at_nosep [of d s cur "[]"] by simp

lemma strip_with_ends: "s \<noteq> [] \<Longrightarrow> \<not> p (hd s) \<Longrightarrow> \<not> p (last s) \<Longrightarrow> strip_with p s = s"
proof -
  assume a: "s \<noteq> []" "\<not> p (hd s)" "\<not> p (last s)"
  have 1: "dropWhile p s = s" using a by (cases s) auto
  have 2: "dropWhile p (rev s) = rev s" using a by (cases "rev s") (auto simp: hd_rev)
  show ?thesis by (simp add: strip_with_def 1 2)
qed

lemma strip_with_none: "\<forall>c\<in>set s. \<not> p c \<Longrightarrow> strip_with p s = s"
proof (cases "s = []")
  case True
  then show ?thesis by (simp add: strip_with_def)
next
  case False
  assume "\<forall>c\<in>set s. \<not> p c"
  with False show ?thesis by (intro strip_with_ends) auto
qed

lemma blank_not_space_free: "isspace CHR '' ''"
  by (simp add: isspace_def)

lemma split_ws_word:
  "\<forall>c\<in>set w. \<not> isspace c \<Longrightarrow> w \<noteq> [] \<Longrightarrow> split_ws [] (w @ CHR '' '' # r) = w # split_ws [] r"
  by (simp add: split_ws_nospace blank_not_space_free)

lemma split_ws_last:
  "\<forall>c\<in>set w. \<not> isspace c \<Longrightarrow> w \<noteq> [] \<Longrightarrow> split_ws [] w = [w]"
  using split_ws_nospace [of w "[]" "[]"] by simp

lemma words2:
  assumes "\<forall>c\<in>set u. \<not> isspace c" "u \<noteq> []" "\<forall>c\<in>set v. \<not> isspace c" "v \<noteq> []"
  shows "py_split (py_strip (u @ CHR '' '' # v)) = [u, v]"
proof -
  have "py_strip (u @ CHR '' '' # v) = u @ CHR '' '' # v"
    unfolding py_strip_def using assms by (intro strip_with_ends) (auto simp: hd_append)
  then show ?thesis
    using assms by (simp add: py_split_def split_ws_word split_ws_last)
qed

lemma words3:
  assumes "\<forall>c\<in>set u. \<not> isspace c" "u \<noteq> []" "\<forall>c\<in>set v. \<not> isspace c" "v \<noteq> []"
    "\<forall>c\<in>set w. \<not> isspace c" "w \<noteq> []"
  shows "py_split (py_strip (u @ CHR '' '' # v @ CHR '' '' # w)) = [u, v, w]"
proof -
  have "py_strip (u @ CHR '' '' # v @ CHR '' '' # w) = u @ CHR '' '' # v @ CHR '' '' # w"
    unfolding py_strip_def using assms by (intro strip_with_ends) (auto simp: hd_append)
  then show ?thesis
    using assms by (simp add: py_split_def split_ws_word split_ws_last)
qed

lemma parse_account_ok:
  assumes "CHR ''/'' \<notin> set ns" "CHR ''/'' \<notin> set ip" "py_int ns = Inr n"
  shows "parse_account (ns @ CHR ''/'' # ip) = Inr (n, ip)"
  using assms
  by (simp add: parse_account_def py_split_sep_def split_at_nosep split_at_nosep_end unpack2_def)

section \<open>Commands that reach an operation\<close>

lemma exec_AC:
  "execute_command b ''AC'' =
     (py_str_int (next_account_number b) @ ''/'' @ ip_address b, snd (account_create b))"
  by (simp add: execute_command_def dispatch_def respond_def account_create_def text_defs)

lemma exec_AD:
  assumes "\<forall>c\<in>set account_full. \<not> isspace c" "account_full \<noteq> []"
    "\<forall>c\<in>set amount_str. \<not> isspace c" "amount_str \<noteq> []"
  shows "execute_command b (''AD '' @ account_full @ '' '' @ amount_str) =
     apfst respond (account_deposit b account_full amount_str)"
proof -
  have "py_split (py_strip (''AD'' @ CHR '' '' # account_full @ CHR '' '' # amount_str))
      = [''AD'', account_full, amount_str]"
    using assms by (intro words3) (simp_all add: isspace_def)
  then show ?thesis
    by (simp add: execute_command_def dispatch_def py_upper_def upper_char_def)
qed

lemma exec_AW:
  assumes "\<forall>c\<in>set account_full. \<not> isspace c" "account_full \<noteq> []"
    "\<forall>c\<in>set amount_str. \<not> isspace c" "amount_str \<noteq> []"
  shows "execute_command b (''AW '' @ account_full @ '' '' @ amount_str) =
     apfst respond (account_withdrawal b account_full amount_str)"
proof -
  have "py_split (py_strip (''AW'' @ CHR '' '' # account_full @ CHR '' '' # amount_str))
      = [''AW'', account_full, amount_str]"
    using assms by (intro words3) (simp_all add: isspace_def)
  then show ?thesis
    by (simp add: execute_command_def dispatch_def py_upper_def upper_char_def)
qed

lemma exec_AB:
  assumes "\<forall>c\<in>set account_full. \<not> isspace c" "account_full \<noteq> []"
  shows "execute_command b (''AB '' @ account_full) =
     (respond (account_balance b account_full), b)"
proof -
  have "py_split (py_strip (''AB'' @ CHR '' '' # account_full)) = [''AB'', account_full]"
    using assms by (intro words2) (simp_all add: isspace_def)
  then show ?thesis
    by (simp add: execute_command_def dispatch_def py_upper_def upper_char_def)
qed

lemma deposit_ok:
  assumes "parse_account account_full = Inr (n, ip_address b)"
    "Decimal amount_str = Inr amount" "dec_le amount dec_zero = Inr False"
    "map_of (accounts b) n = Some acc" "dec_add (balance acc) amount = Inr bal"
  shows "account_deposit b account_full amount_str =
     (Inr (msg_deposited amount account_full bal),
      save_state (b\<lparr>accounts := AList.update n (acc\<lparr>balance := bal\<rparr>) (accounts b)\<rparr>))"
  using assms
  by (simp add: account_deposit_def deposit_try_def deposit_checked_def deposit_locked_def)

lemma withdrawal_ok:
  assumes "parse_account account_full = Inr (n, ip_address b)"
    "Decimal amount_str = Inr amount" "dec_le amount dec_zero = Inr False"
    "map_of (accounts b) n = Some acc" "dec_lt (balance acc) amount = Inr False"
    "dec_sub (balance acc) amount = Inr bal"
  shows "account_withdrawal b account_full amount_str =
     (Inr (msg_withdrawn amount account_full bal),
      save_state (b\<lparr>accounts := AList.update n (acc\<lparr>balance := bal\<rparr>) (accounts b)\<rparr>))"
  using assms
  by (simp add: account_withdrawal_def withdrawal_try_def withdrawal_checked_def withdrawal_locked_def)

lemma withdrawal_insufficient:
  assumes "parse_account account_full = Inr (n, ip_address b)"
    "Decimal amount_str = Inr amount" "dec_le amount dec_zero = Inr False"
    "map_of (accounts b) n = Some acc" "dec_lt (balance acc) amount = Inr True"
  shows "account_withdrawal b account_full amount_str =
     (Inl (Exception (msg_insufficient (balance acc))), b)"
  using assms
  by (simp add: account_withdrawal_def withdrawal_try_def withdrawal_checked_def withdrawal_locked_def)

lemma balance_ok:
  assumes "parse_account account_full = Inr (n, ip_address b)" "map_of (accounts b) n = Some acc"
  shows "account_balance b account_full = Inr (str_decimal (balance acc))"
  using assms by (simp add: account_balance_def balance_try_def)

lemma Bank_init_Absent: "Bank_init ip Absent = fresh ip Absent"
  by (simp add: Bank_init_def load_state_def fresh_def)

lemma py_int_10001: "py_int ''10001'' = Inr 10001"
  by (simp add: text_defs)

lemma id_10001:
  "CHR ''/'' \<notin> set ip \<Longrightarrow> parse_account (''10001/'' @ ip) = Inr (10001, ip)"
  using parse_account_ok [of "''10001''" ip 10001] by (simp add: py_int_10001)

section \<open>The scenario of a fresh ledger\<close>

text \<open>
  C1.  A bank that starts without a state file (no accounts, next number 10001) answers
  the four commands \<open>AC\<close>, \<open>AD 10001/ip 100\<close>, \<open>AW 10001/ip 40\<close>, \<open>AB 10001/ip\<close>,
  sent in this order, with \<open>10001/ip\<close>, an \<open>OK:\<close> line that ends in the new balance 100,
  an \<open>OK:\<close> line that ends in the new balance 60, and \<open>60\<close>.  Here \<open>ip\<close> is the
  bank's address; as an address it has neither white space nor a slash.
\<close>

theorem fresh_ledger_scenario:
  assumes "\<forall>c\<in>set ip. \<not> isspace c \<and> c \<noteq> CHR ''/''"
  shows "fst (session (Bank_init ip Absent)
            [''AC'', ''AD 10001/'' @ ip @ '' 100'', ''AW 10001/'' @ ip @ '' 40'', ''AB 10001/'' @ ip])
         = [''10001/'' @ ip,
            ''OK: Vlo'' @ z_caron @ ''eno 100 K'' @ c_caron @ '' na '' @ u_acute @ c_caron @ ''et 10001/''
              @ ip @ '', nov'' @ y_acute @ '' z'' @ u_ring @ ''statek: 100 K'' @ c_caron,
            ''OK: Vybr'' @ a_acute @ ''no 40 K'' @ c_caron @ '' z '' @ u_acute @ c_caron @ ''tu 10001/''
              @ ip @ '', nov'' @ y_acute @ '' z'' @ u_ring @ ''statek: 60 K'' @ c_caron,
            ''60'']"
proof -
  define b1 where "b1 = snd (account_create (fresh ip Absent))"
  define b2 where "b2 = save_state (b1\<lparr>accounts :=
      AList.update 10001 \<lparr>number = 10001, balance = Finite False 100 0\<rparr> (accounts b1)\<rparr>)"
  define b3 where "b3 = save_state (b2\<lparr>accounts :=
      AList.update 10001 \<lparr>number = 10001, balance = Finite False 60 0\<rparr> (accounts b2)\<rparr>)"
  have ip: "CHR ''/'' \<notin> set ip" "\<forall>c\<in>set (''10001/'' @ ip). \<not> isspace c"
    using assms by (auto simp: isspace_def)
  have pa: "parse_account (CHR ''1'' # CHR ''0'' # CHR ''0'' # CHR ''0'' # CHR ''1'' # CHR ''/'' # ip)
      = Inr (10001, ip)"
    using id_10001 [OF ip(1)] by simp
  have a1: "accounts b1 = [(10001, \<lparr>number = 10001, balance = Finite False 0 0\<rparr>)]"
    and i1: "ip_address b1 = ip"
    by (simp_all add: b1_def account_create_def save_state_def fresh_def Account_def dec_zero_def)
  have a2: "accounts b2 = [(10001, \<lparr>number = 10001, balance = Finite False 100 0\<rparr>)]"
    and i2: "ip_address b2 = ip"
    by (simp_all add: b2_def save_state_def a1 i1)
  have a3: "accounts b3 = [(10001, \<lparr>number = 10001, balance = Finite False 60 0\<rparr>)]"
    and i3: "ip_address b3 = ip"
    by (simp_all add: b3_def save_state_def a2 i2)
  have s1: "execute_command (fresh ip Absent) ''AC'' = (''10001/'' @ ip, b1)"
    by (simp add: exec_AC b1_def fresh_def text_defs)
  have d: "account_deposit b1 (''10001/'' @ ip) ''100''
      = (Inr (msg_deposited (Finite False 100 0) (''10001/'' @ ip) (Finite False 100 0)), b2)"
    unfolding b2_def
    by (subst deposit_ok [where n = 10001 and amount = "Finite False 100 0"
          and acc = "\<lparr>number = 10001, balance = Finite False 0 0\<rparr>" and bal = "Finite False 100 0"])
       (simp_all add: pa ip i1 a1 text_defs dec_defs)
  have s2: "execute_command b1 (''AD 10001/'' @ ip @ '' 100'')
      = (msg_deposited (Finite False 100 0) (''10001/'' @ ip) (Finite False 100 0), b2)"
    using exec_AD [of "''10001/'' @ ip" "''100''" b1] ip d by (simp add: isspace_def respond_def)
  have w: "account_withdrawal b2 (''10001/'' @ ip) ''40''
      = (Inr (msg_withdrawn (Finite False 40 0) (''10001/'' @ ip) (Finite False 60 0)), b3)"
    unfolding b3_def
    by (subst withdrawal_ok [where n = 10001 and amount = "Finite False 40 0"
          and acc = "\<lparr>number = 10001, balance = Finite False 100 0\<rparr>" and bal = "Finite False 60 0"])
       (simp_all add: pa ip i2 a2 text_defs dec_defs)
  have s3: "execute_command b2 (''AW 10001/'' @ ip @ '' 40'')
      = (msg_withdrawn (Finite False 40 0) (''10001/'' @ ip) (Finite False 60 0), b3)"
    using exec_AW [of "''10001/'' @ ip" "''40''" b2] ip w by (simp add: isspace_def respond_def)
  have q: "account_balance b3 (''10001/'' @ ip) = Inr ''60''"
    by (subst balance_ok [where n = 10001 and acc = "\<lparr>number = 10001, balance = Finite False 60 0\<rparr>"])
       (simp_all add: pa ip i3 a3 text_defs dec_defs)
  have s4: "execute_command b3 (''AB 10001/'' @ ip) = (''60'', b3)"
    using exec_AB [of "''10001/'' @ ip" b3] ip q by (simp add: respond_def)
  have m2: "\<And>a. msg_deposited (Finite False 100 0) a (Finite False 100 0)
      = ''OK: Vlo'' @ z_caron @ ''eno 100 K'' @ c_caron @ '' na '' @ u_acute @ c_caron @ ''et ''
              @ a @ '', nov'' @ y_acute @ '' z'' @ u_ring @ ''statek: 100 K'' @ c_caron"
    by (simp add: msg_deposited_def text_defs dec_defs)
  have m3: "\<And>a. msg_withdrawn (Finite False 40 0) a (Finite False 60 0)
      = ''OK: Vybr'' @ a_acute @ ''no 40 K'' @ c_caron @ '' z '' @ u_acute @ c_caron @ ''tu ''
              @ a @ '', nov'' @ y_acute @ '' z'' @ u_ring @ ''statek: 60 K'' @ c_caron"
    by (simp add: msg_withdrawn_def text_defs dec_defs)
  show ?thesis
    using s1 s2 s3 s4 by (simp add: Bank_init_Absent m2 m3)
qed

theorem fresh_ledger_scenario_witness:
  "list_all (\<lambda>c. \<not> isspace c \<and> c \<noteq> CHR ''/'') ''192.168.1.20''
   \<and> fst (session (Bank_init ''192.168.1.20'' Absent)
            [''AC'', ''AD 10001/192.168.1.20 100'', ''AW 10001/192.168.1.20 40'', ''AB 10001/192.168.1.20''])
      = [''10001/192.168.1.20'',
         ''OK: Vlo'' @ z_caron @ ''eno 100 K'' @ c_caron @ '' na '' @ u_acute @ c_caron
           @ ''et 10001/192.168.1.20, nov'' @ y_acute @ '' z'' @ u_ring @ ''statek: 100 K'' @ c_caron,
         ''OK: Vybr'' @ a_acute @ ''no 40 K'' @ c_caron @ '' z '' @ u_acute @ c_caron
           @ ''tu 10001/192.168.1.20, nov'' @ y_acute @ '' z'' @ u_ring @ ''statek: 60 K'' @ c_caron,
         ''60'']"
proof -
  have h: "\<forall>c\<in>set ''192.168.1.20''. \<not> isspace c \<and> c \<noteq> CHR ''/''"
    by (simp add: isspace_def)
  show ?thesis
    using h fresh_ledger_scenario [OF h] by (simp add: list_all_iff)
qed

section \<open>A failed operation changes nothing\<close>

lemma isl_handlers: "isl (handlers m r) = isl r"
  by (cases "(m, r)" rule: handlers.cases) auto

lemma deposit_locked_fail:
  "isl (fst (deposit_locked b a n amt)) \<Longrightarrow> snd (deposit_locked b a n amt) = b"
  by (auto simp: deposit_locked_def split: option.splits sum.splits)

lemma deposit_checked_fail:
  "isl (fst (deposit_checked b a n ip amt)) \<Longrightarrow> snd (deposit_checked b a n ip amt) = b"
  by (auto simp: deposit_checked_def deposit_locked_fail split: sum.splits)

lemma deposit_try_fail: "isl (fst (deposit_try b a s)) \<Longrightarrow> snd (deposit_try b a s) = b"
  by (auto simp: deposit_try_def deposit_checked_fail split: sum.splits)

lemma withdrawal_locked_fail:
  "isl (fst (withdrawal_locked b a n amt)) \<Longrightarrow> snd (withdrawal_locked b a n amt) = b"
  by (auto simp: withdrawal_locked_def split: option.splits sum.splits)

lemma withdrawal_checked_fail:
  "isl (fst (withdrawal_checked b a n ip amt)) \<Longrightarrow> snd (withdrawal_checked b a n ip amt) = b"
  by (auto simp: withdrawal_checked_def withdrawal_locked_fail split: sum.splits)

lemma withdrawal_try_fail: "isl (fst (withdrawal_try b a s)) \<Longrightarrow> snd (withdrawal_try b a s) = b"
  by (auto simp: withdrawal_try_def withdrawal_checked_fail split: sum.splits)

lemma deposit_fail_same: "isl (fst (account_deposit b a s)) \<Longrightarrow> snd (account_deposit b a s) = b"
  by (simp add: account_deposit_def isl_handlers deposit_try_fail)

lemma withdrawal_fail_same:
  "isl (fst (account_withdrawal b a s)) \<Longrightarrow> snd (account_withdrawal b a s) = b"
  by (simp add: account_withdrawal_def isl_handlers withdrawal_try_fail)

text \<open>
  C10.  A deposit or a withdrawal that raises, for whatever reason, returns the bank as it
  was: the accounts with their balances, the next account number, the address and the
  file are those before the call.
\<close>

theorem failed_operation_changes_nothing:
  "(isl (fst (account_deposit b account_full amount_str))
      \<longrightarrow> snd (account_deposit b account_full amount_str) = b)
   \<and> (isl (fst (account_withdrawal b account_full amount_str))
      \<longrightarrow> snd (account_withdrawal b account_full amount_str) = b)"
  by (simp add: deposit_fail_same withdrawal_fail_same)

lemma parse_10001_at: "parse_account ''10001/10.0.0.5'' = Inr (10001, ''10.0.0.5'')"
  by (simp add: parse_account_def unpack2_def text_defs)

lemma created_accounts:
  "accounts (snd (account_create (fresh ip d))) = [(10001, \<lparr>number = 10001, balance = Finite False 0 0\<rparr>)]"
  by (simp add: account_create_def save_state_def fresh_def Account_def dec_zero_def)

lemma created_address: "ip_address (snd (account_create (fresh ip d))) = ip"
  by (simp add: account_create_def save_state_def fresh_def)

theorem failed_operation_changes_nothing_witness:
  "isl (fst (account_deposit (snd (account_create (fresh ''10.0.0.5'' Absent))) ''10001/10.0.0.5'' ''1000''))
     = False
   \<and> isl (fst (account_withdrawal (snd (account_create (fresh ''10.0.0.5'' Absent))) ''10001/10.0.0.5'' ''1000''))
   \<and> snd (account_withdrawal (snd (account_create (fresh ''10.0.0.5'' Absent))) ''10001/10.0.0.5'' ''1000'')
     = snd (account_create (fresh ''10.0.0.5'' Absent))"
proof -
  let ?b = "snd (account_create (fresh ''10.0.0.5'' Absent))"
  have d: "Decimal ''1000'' = Inr (Finite False 1000 0)"
    by (simp add: text_defs dec_defs)
  have "account_deposit ?b ''10001/10.0.0.5'' ''1000''
      = (Inr (msg_deposited (Finite False 1000 0) ''10001/10.0.0.5'' (Finite False 1000 0)),
         save_state (?b\<lparr>accounts := AList.update 10001
            (\<lparr>number = 10001, balance = Finite False 0 0\<rparr>\<lparr>balance := Finite False 1000 0\<rparr>) (accounts ?b)\<rparr>))"
    by (rule deposit_ok) (simp_all add: parse_10001_at created_accounts created_address d arith_defs text_defs)
  then have 1: "isl (fst (account_deposit ?b ''10001/10.0.0.5'' ''1000'')) = False"
    by simp
  have "account_withdrawal ?b ''10001/10.0.0.5'' ''1000''
      = (Inl (Exception (msg_insufficient (balance \<lparr>number = 10001, balance = Finite False 0 0\<rparr>))), ?b)"
    by (rule withdrawal_insufficient [where n = 10001 and amount = "Finite False 1000 0"])
       (simp_all add: parse_10001_at created_accounts created_address d arith_defs text_defs)
  then have 2: "isl (fst (account_withdrawal ?b ''10001/10.0.0.5'' ''1000''))"
    by simp
  from 1 2 failed_operation_changes_nothing [of ?b "''10001/10.0.0.5''" "''1000''"]
  show ?thesis by simp
qed

section \<open>The command processor never raises\<close>









lemma three_words: "length ws = 3 \<Longrightarrow> ws = [ws ! 0, ws ! 1, ws ! 2]"
  by (cases ws; cases "tl ws"; cases "tl (tl ws)") auto





section \<open>The order of the checks of a deposit\<close>
















section \<open>Loading the state file\<close>

lemma load_absent: "load_state (fresh ip Absent) = (NoFile, fresh ip Absent)"
  by (simp add: load_state_def fresh_def)

lemma load_unreadable: "load_state (fresh ip Unreadable) = (Failed ReadError, fresh ip Unreadable)"
  by (simp add: load_state_def fresh_def)

lemma load_no_counter:
  "subscript data ''next_account_number'' = Raise e
   \<Longrightarrow> load_state (fresh ip (Content data)) = (Failed e, fresh ip (Content data))"
  by (simp add: load_state_def load_data_def fresh_def)

text \<open>Records that load, then one that raises: the loop stops there with the accounts of
  the records before it.\<close>

lemma load_accounts_stops:
  "load_accounts good accs = (Loaded, accs') \<Longrightarrow> from_dict bad = Raise e
   \<Longrightarrow> load_accounts (good @ bad # rest) accs = (Failed e, accs')"
  by (induction good arbitrary: accs) (auto split: result.splits)

lemma load_partial:
  assumes "subscript data ''next_account_number'' = Ok (JInt n)"
    and "subscript data ''accounts'' = Ok (JList (good @ bad # rest))"
    and "load_accounts good [] = (Loaded, accs)" and "from_dict bad = Raise e"
  shows "load_state (fresh ip (Content data))
     = (Failed e, \<lparr>accounts = accs, next_account_number = n, ip_address = ip, disk = Content data\<rparr>)"
  using assms load_accounts_stops [of good "[]" accs bad e rest]
  by (simp add: load_state_def load_data_def load_records_def iterate_def fresh_def)

lemma load_no_accounts:
  assumes "subscript data ''next_account_number'' = Ok (JInt n)"
    and "subscript data ''accounts'' = Raise e"
  shows "load_state (fresh ip (Content data))
     = (Failed e, \<lparr>accounts = [], next_account_number = n, ip_address = ip, disk = Content data\<rparr>)"
  using assms by (simp add: load_state_def load_data_def fresh_def)

text \<open>
  C9, as the code has it.  Constructing the bank never raises.  When the state file is
  absent, or reading or parsing it fails, or what was parsed has no entry
  \<open>next_account_number\<close> to read (it is not an object, or the key is missing), the ledger
  is empty and the next account number is 10001.  When the load fails later, on the
  entry \<open>accounts\<close> or on one of its records, the next account number is the one of the
  file and the accounts are those of the records before the failing one.
\<close>

theorem failed_load:
  "(d = Absent \<or> d = Unreadable
      \<or> (\<exists>data e. d = Content data \<and> subscript data ''next_account_number'' = Raise e)
     \<longrightarrow> accounts (Bank_init ip d) = [] \<and> next_account_number (Bank_init ip d) = 10001)
   \<and> (d = Content data \<and> subscript data ''next_account_number'' = Ok (JInt n)
        \<and> subscript data ''accounts'' = Raise e
     \<longrightarrow> load_state (fresh ip d) = (Failed e, Bank_init ip d)
        \<and> accounts (Bank_init ip d) = [] \<and> next_account_number (Bank_init ip d) = n)
   \<and> (d = Content data \<and> subscript data ''next_account_number'' = Ok (JInt n)
        \<and> subscript data ''accounts'' = Ok (JList (good @ bad # rest))
        \<and> load_accounts good [] = (Loaded, accs) \<and> from_dict bad = Raise e
     \<longrightarrow> load_state (fresh ip d) = (Failed e, Bank_init ip d)
        \<and> accounts (Bank_init ip d) = accs \<and> next_account_number (Bank_init ip d) = n)"
proof (intro conjI impI)
  assume "d = Absent \<or> d = Unreadable
      \<or> (\<exists>data e. d = Content data \<and> subscript data ''next_account_number'' = Raise e)"
  then have "snd (load_state (fresh ip d)) = fresh ip d"
    using load_absent [of ip] load_unreadable [of ip] load_no_counter [of _ _ ip] by auto
  then show "accounts (Bank_init ip d) = []" "next_account_number (Bank_init ip d) = 10001"
    by (simp_all add: Bank_init_def fresh_def)
next
  assume a: "d = Content data \<and> subscript data ''next_account_number'' = Ok (JInt n)
        \<and> subscript data ''accounts'' = Raise e"
  then have l: "load_state (fresh ip d)
     = (Failed e, \<lparr>accounts = [], next_account_number = n, ip_address = ip, disk = Content data\<rparr>)"
    using load_no_accounts [of data n e ip] by simp
  then show "load_state (fresh ip d) = (Failed e, Bank_init ip d)"
    "accounts (Bank_init ip d) = []" "next_account_number (Bank_init ip d) = n"
    by (simp_all add: Bank_init_def)
next
  assume a: "d = Content data \<and> subscript data ''next_account_number'' = Ok (JInt n)
        \<and> subscript data ''accounts'' = Ok (JList (good @ bad # rest))
        \<and> load_accounts good [] = (Loaded, accs) \<and> from_dict bad = Raise e"
  then have l: "load_state (fresh ip d)
     = (Failed e, \<lparr>accounts = accs, next_account_number = n, ip_address = ip, disk = Content data\<rparr>)"
    using load_partial [of data n good bad rest accs e ip] by simp
  then show "load_state (fresh ip d) = (Failed e, Bank_init ip d)"
    "accounts (Bank_init ip d) = accs" "next_account_number (Bank_init ip d) = n"
    by (simp_all add: Bank_init_def)
qed

lemma broken_counter: "subscript broken_file ''next_account_number'' = Ok (JInt 10003)"
  by (simp add: subscript_def broken_file_def)

lemma broken_accounts:
  "subscript broken_file ''accounts''
     = Ok (JList ([JObject [(''number'', JInt 10001), (''balance'', JStr ''5'')]]
                  @ JObject [(''number'', JInt 10002)] # []))"
  by (simp add: subscript_def broken_file_def)

lemma broken_first:
  "load_accounts [JObject [(''number'', JInt 10001), (''balance'', JStr ''5'')]] []
     = (Loaded, [(10001, \<lparr>number = 10001, balance = Finite False 5 0\<rparr>)])"
  by (simp add: from_dict_def from_dict_fields_def subscript_def Decimal_json_def number_json_def
      text_defs parse_defs)

lemma broken_second: "from_dict (JObject [(''number'', JInt 10002)]) = Raise (KeyError ''balance'')"
  by (simp add: from_dict_def subscript_def)

theorem failed_load_witness:
  "accounts (Bank_init ''10.0.0.5'' Unreadable) = []
   \<and> next_account_number (Bank_init ''10.0.0.5'' Unreadable) = 10001
   \<and> load_state (fresh ''10.0.0.5'' (Content broken_file))
       = (Failed (KeyError ''balance''), Bank_init ''10.0.0.5'' (Content broken_file))
   \<and> map fst (accounts (Bank_init ''10.0.0.5'' (Content broken_file))) = [10001]"
proof -
  have 1: "accounts (Bank_init ''10.0.0.5'' Unreadable) = []
      \<and> next_account_number (Bank_init ''10.0.0.5'' Unreadable) = 10001"
    using failed_load [of Unreadable "''10.0.0.5''"] by simp
  have 2: "load_state (fresh ''10.0.0.5'' (Content broken_file))
       = (Failed (KeyError ''balance''), Bank_init ''10.0.0.5'' (Content broken_file))
     \<and> accounts (Bank_init ''10.0.0.5'' (Content broken_file))
       = [(10001, \<lparr>number = 10001, balance = Finite False 5 0\<rparr>)]"
    using failed_load [of "Content broken_file" "''10.0.0.5''" broken_file 10003 "KeyError ''balance''"
        "[JObject [(''number'', JInt 10001), (''balance'', JStr ''5'')]]"
        "JObject [(''number'', JInt 10002)]" "[]"
        "[(10001, \<lparr>number = 10001, balance = Finite False 5 0\<rparr>)]"]
      broken_counter broken_accounts broken_first broken_second
    by simp
  from 1 2 show ?thesis by simp
qed

text \<open>The claim as worded leaves the ledger empty at 10001 after every failed load.  With
  this file the load fails at the second record; the first account stays in the ledger
  and the next account number is the file's 10003.\<close>

theorem failed_load_counterexample:
  "fst (load_state (fresh ''10.0.0.5'' (Content broken_file))) = Failed (KeyError ''balance'')
   \<and> accounts (Bank_init ''10.0.0.5'' (Content broken_file))
       = [(10001, \<lparr>number = 10001, balance = Finite False 5 0\<rparr>)]
   \<and> accounts (Bank_init ''10.0.0.5'' (Content broken_file)) \<noteq> []
   \<and> next_account_number (Bank_init ''10.0.0.5'' (Content broken_file)) = 10003
   \<and> next_account_number (Bank_init ''10.0.0.5'' (Content broken_file)) \<noteq> 10001"
proof -
  have "load_state (fresh ''10.0.0.5'' (Content broken_file))
     = (Failed (KeyError ''balance''),
        \<lparr>accounts = [(10001, \<lparr>number = 10001, balance = Finite False 5 0\<rparr>)],
           next_account_number = 10003, ip_address = ''10.0.0.5'', disk = Content broken_file\<rparr>)"
    using load_partial [OF broken_counter broken_accounts broken_first broken_second] .
  then show ?thesis
    by (simp add: Bank_init_def)
qed

end
